theory Spec2Isabelle
  imports Main
begin

section \<open>The \<open>now list\<close> command: data model\<close>

text \<open>
  The development embeds \<^verbatim>\<open>src/providers/sh/commands/list.js\<close>. The objects the
  command handles are records; a property that may be \<^verbatim>\<open>undefined\<close> or \<^verbatim>\<open>null\<close> is an
  \<open>option\<close>. The command tests \<^verbatim>\<open>i.url\<close>, \<^verbatim>\<open>dep.state\<close>, \<^verbatim>\<open>dep.created\<close>,
  \<^verbatim>\<open>dep.scale\<close> and \<^verbatim>\<open>dep.instances\<close> for absence, so these five are optional.
\<close>

record scale_info =
  current :: int

record inst =
  i_url :: string

record deployment =
  uid :: string
  name :: string
  url :: "string option"
  state :: "string option"
  created :: "int option"
  scale :: "scale_info option"
  instances :: "inst list option"

record alias_entry =
  a_uid :: string
  a_alias :: string
  deploymentId :: string

record team =
  slug :: "string option"

record user_info =
  username :: "string option"
  email :: "string option"

record sh_config =
  currentTeam :: "team option"
  user :: user_info

text \<open>
  The module-level variables \<^verbatim>\<open>app\<close> and \<^verbatim>\<open>argv.all\<close> that \<^verbatim>\<open>list\<close> reads, together
  with the fields of its argument object. \<^verbatim>\<open>app\<close> is \<^verbatim>\<open>argv._[0]\<close>: a string, or
  \<^verbatim>\<open>undefined\<close> (\<open>None\<close>) when no positional argument was given.
\<close>

record opts =
  app :: "string option"
  argv_all :: bool
  sh :: sh_config
  includeScheme :: bool

text \<open>
  What can be thrown: an error of a collaborator, or a \<^verbatim>\<open>TypeError\<close> (at line 82, and
  at lines 146 and 152 when \<^verbatim>\<open>deployments\<close> is \<^verbatim>\<open>undefined\<close> or \<^verbatim>\<open>null\<close>).
\<close>

datatype error = TransportError string | TypeError

text \<open>
  The \<^verbatim>\<open>Now\<close> client (\<^verbatim>\<open>../util\<close>), the comparator \<^verbatim>\<open>../util/sort-deployments\<close>, the
  capability probe \<^verbatim>\<open>supports-color\<close> and the clock are collaborators that the command
  only calls. They are parameters of the model: each client method is the response it
  gives to its argument, \<open>Inl\<close> when the returned promise rejects, and within one run
  the same argument gets the same answer. \<^verbatim>\<open>list\<close> resolves to a sequence of
  deployments or to nothing (\<open>None\<close>: \<^verbatim>\<open>undefined\<close> or \<^verbatim>\<open>null\<close>), which the tests of lines
  119 and 127 provide for; \<^verbatim>\<open>findDeployment\<close> resolves to a deployment or to
  \<^verbatim>\<open>null\<close>/\<^verbatim>\<open>undefined\<close>, \<^verbatim>\<open>listAliases\<close> to a sequence of aliases, \<^verbatim>\<open>listInstances\<close> to a
  sequence of instances.
\<close>

record env =
  now_list :: "string option \<Rightarrow> error + deployment list option"
  now_findDeployment :: "string option \<Rightarrow> error + deployment option"
  now_listAliases :: "error + alias_entry list"
  now_listInstances :: "string \<Rightarrow> error + inst list"
  sort_deployments :: "(string \<times> deployment list) list \<Rightarrow> (string \<times> deployment list) list"
  supportsColor :: bool
  start_time :: int
  time_now :: int

text \<open>
  Every use of the client is logged in call order. \<open>NowNew\<close> is the constructor of
  line 102 and \<open>NowClose\<close> is \<^verbatim>\<open>now.close()\<close> of line 140; the other four are the methods
  that send a request.
\<close>

datatype call =
    NowNew
  | NowList "string option"
  | NowFindDeployment "string option"
  | NowListAliases
  | NowClose
  | NowListInstances string

fun is_network_call :: "call \<Rightarrow> bool" where
  "is_network_call NowNew = False"
| "is_network_call NowClose = False"
| "is_network_call (NowList a) = True"
| "is_network_call (NowFindDeployment a) = True"
| "is_network_call NowListAliases = True"
| "is_network_call (NowListInstances u) = True"

text \<open>
  What the command prints, one value per \<^verbatim>\<open>console.log\<close>/\<^verbatim>\<open>console.error\<close> call.
  The styling and formatting libraries (\<^verbatim>\<open>chalk\<close>, \<^verbatim>\<open>printf\<close>, \<^verbatim>\<open>ms\<close>, \<^verbatim>\<open>pluralize\<close>)
  are not run: a line records the arguments the command hands to them. \<^verbatim>\<open>handleError\<close>
  (\<^verbatim>\<open>../util/error\<close>) is a collaborator too: \<open>HandledError err\<close> records that it was
  called with \<open>err\<close>, and \<open>UnknownError err\<close> is the \<^verbatim>\<open>console.error\<close> of line 87.
  \<open>HelpText\<close> is the usage text of lines 19 to 53 and \<open>Log s\<close> a literal line.
  \<^item> \<open>Summary n scope t\<close>: line 164, with \<open>n\<close> deployments, the scope and \<open>t\<close> elapsed;
  \<^item> \<open>GroupHeader nm txt\<close>: line 198, \<open>txt\<close> is the string given to \<^verbatim>\<open>chalk.gray\<close>;
  \<^item> \<open>ColumnHeader w\<close>: line 206, \<open>w\<close> is the width in \<^verbatim>\<open>%-${urlLength}s\<close>;
  \<^item> \<open>Row uw sw u i s a\<close>: line 240, \<open>uw\<close> and \<open>sw\<close> are the widths of the url and state
    columns of \<^verbatim>\<open>spec\<close>, then the four \<^verbatim>\<open>printf\<close> arguments;
  \<^item> \<open>InstanceRow w txt\<close>: line 252.
\<close>

datatype state_cell = Red string | Grey string | Unstyled string

datatype inst_cell = InstCount int | Cross

datatype age_cell = Age int | NotAvailable

datatype out_line =
    HelpText
  | Log string
  | HandledError error
  | UnknownError error
  | Summary nat "string option" int
  | Hint
  | Blank
  | GroupHeader string string
  | ColumnHeader nat
  | Row nat nat string inst_cell state_cell age_cell
  | InstanceRow nat string

fun is_row :: "out_line \<Rightarrow> bool" where
  "is_row (Row uw sw u i s a) = True"
| "is_row other = False"

fun is_group_header :: "out_line \<Rightarrow> bool" where
  "is_group_header (GroupHeader nm txt) = True"
| "is_group_header other = False"

text \<open>
  How a run ends: the function returns, the process exits with a status
  (\<^verbatim>\<open>process.exit\<close>), or an exception leaves the function.
\<close>

datatype outcome = Returned | Exited nat | Threw error

record result =
  calls :: "call list"
  printed :: "out_line list"
  outcome :: outcome

section \<open>JavaScript helpers\<close>

text \<open>Truthiness of a value that is a string or undefined: the empty string is falsy.\<close>

fun truthy :: "string option \<Rightarrow> bool" where
  "truthy None = False"
| "truthy (Some s) = (s \<noteq> [])"

text \<open>\<^verbatim>\<open>a || b\<close> on such values.\<close>

definition js_or :: "string option \<Rightarrow> string option \<Rightarrow> string option" where
  "js_or a b = (if truthy a then a else b)"

text \<open>
  String concatenation turns \<^verbatim>\<open>undefined\<close> into the text \<^verbatim>\<open>undefined\<close>; an absent
  \<^verbatim>\<open>url\<close> is taken to be \<^verbatim>\<open>undefined\<close>.
\<close>

fun js_string :: "string option \<Rightarrow> string" where
  "js_string None = ''undefined''"
| "js_string (Some s) = s"

text \<open>
  A number in a string concatenation is written in decimal. \<open>digit\<close> is only applied
  to numbers below ten.
\<close>

definition digit :: "nat \<Rightarrow> char" where
  "digit d = ''0123456789'' ! d"

function show_nat :: "nat \<Rightarrow> string" where
  "show_nat n = (if n < 10 then [digit n] else show_nat (n div 10) @ [digit (n mod 10)])"
  by pat_completeness auto
termination
  by (relation "measure id") auto

declare show_nat.simps [simp del]

text \<open>\<^verbatim>\<open>/ERROR/.test(s)\<close>: the pattern occurs somewhere in \<open>s\<close>.\<close>

fun regex_test :: "string \<Rightarrow> string \<Rightarrow> bool" where
  "regex_test pat [] = (pat = [])"
| "regex_test pat (c # cs) = (take (length pat) (c # cs) = pat \<or> regex_test pat cs)"

section \<open>Resolution (lines 110 to 138)\<close>

text \<open>
  The variable \<^verbatim>\<open>deployments\<close> holds an array, or \<^verbatim>\<open>undefined\<close>/\<^verbatim>\<open>null\<close> (\<open>None\<close>) when the
  listing resolved to nothing. The test of lines 119 and 127,
  \<^verbatim>\<open>!deployments || (Array.isArray(deployments) && deployments.length <= 0)\<close>:
  the first disjunct holds for \<open>None\<close>; an array is truthy, so for an array the test is
  the second disjunct.
\<close>

fun js_empty :: "deployment list option \<Rightarrow> bool" where
  "js_empty None = True"
| "js_empty (Some deployments) = (length deployments \<le> 0)"

text \<open>
  Lines 122 to 124 and 134 to 136: a match that is neither \<^verbatim>\<open>null\<close> nor \<^verbatim>\<open>undefined\<close>
  replaces \<^verbatim>\<open>deployments\<close> by \<^verbatim>\<open>Array.of(match)\<close>.
\<close>

fun take_match :: "deployment option \<Rightarrow> deployment list option \<Rightarrow> deployment list option" where
  "take_match None deployments = deployments"
| "take_match (Some m) deployments = Some [m]"

text \<open>
  Lines 119 to 125. The result is the calls made and either the error that
  \<^verbatim>\<open>await\<close> rethrows or the new value of \<^verbatim>\<open>deployments\<close>.
\<close>

definition tier2 :: "env \<Rightarrow> string option \<Rightarrow> deployment list option \<Rightarrow> call list \<times> (error + deployment list option)" where
  "tier2 e tgt deployments =
     (if js_empty deployments then
        (case now_findDeployment e tgt of
           Inl err \<Rightarrow> ([NowFindDeployment tgt], Inl err)
         | Inr m \<Rightarrow> ([NowFindDeployment tgt], Inr (take_match m deployments)))
      else ([], Inr deployments))"

text \<open>Line 129: \<^verbatim>\<open>aliases.find(e => e.uid === app || e.alias === app)\<close>.\<close>

definition find_alias :: "string option \<Rightarrow> alias_entry list \<Rightarrow> alias_entry option" where
  "find_alias tgt aliases = List.find (\<lambda>e. Some (a_uid e) = tgt \<or> Some (a_alias e) = tgt) aliases"

text \<open>Lines 127 to 138.\<close>

definition tier3 :: "env \<Rightarrow> string option \<Rightarrow> deployment list option \<Rightarrow> call list \<times> (error + deployment list option)" where
  "tier3 e tgt deployments =
     (if js_empty deployments then
        (case now_listAliases e of
           Inl err \<Rightarrow> ([NowListAliases], Inl err)
         | Inr aliases \<Rightarrow>
             (case find_alias tgt aliases of
                None \<Rightarrow> ([NowListAliases], Inr deployments)
              | Some item \<Rightarrow>
                  (case now_findDeployment e (Some (deploymentId item)) of
                     Inl err \<Rightarrow>
                       ([NowListAliases, NowFindDeployment (Some (deploymentId item))], Inl err)
                   | Inr m \<Rightarrow>
                       ([NowListAliases, NowFindDeployment (Some (deploymentId item))],
                        Inr (take_match m deployments)))))
      else ([], Inr deployments))"

text \<open>
  Lines 110 to 138. An error of \<^verbatim>\<open>now.list\<close> is caught at line 114: it is handed to
  \<^verbatim>\<open>handleError\<close> and the process exits with status 1. The later awaits are not inside a
  \<^verbatim>\<open>try\<close>, so their errors leave \<^verbatim>\<open>list\<close>.
\<close>

definition resolve :: "env \<Rightarrow> string option \<Rightarrow> call list \<times> out_line list \<times> (outcome + deployment list option)" where
  "resolve e tgt =
     (case now_list e tgt of
        Inl err \<Rightarrow> ([NowList tgt], [HandledError err], Inl (Exited 1))
      | Inr d1 \<Rightarrow>
          (case tier2 e tgt d1 of
             (c2, Inl err) \<Rightarrow> (NowList tgt # c2, [], Inl (Threw err))
           | (c2, Inr d2) \<Rightarrow>
               (case tier3 e tgt d2 of
                  (c3, Inl err) \<Rightarrow> (NowList tgt # c2 @ c3, [], Inl (Threw err))
                | (c3, Inr d3) \<Rightarrow> (NowList tgt # c2 @ c3, [], Inr d3))))"

section \<open>Instance expansion (lines 144 to 150)\<close>

text \<open>
  \<^verbatim>\<open>deployments.map\<close> runs every callback up to its \<^verbatim>\<open>await\<close>, so one
  \<^verbatim>\<open>listInstances\<close> request is sent per deployment, in order, whatever the answers are.
  \<^verbatim>\<open>Promise.all\<close> then rejects as soon as one of the promises rejects, and the \<^verbatim>\<open>await\<close>
  of line 145 rethrows that error; no callback catches anything. Which rejection
  arrives first is a matter of timing: the model reports the one of the earliest
  deployment in the list. When every request succeeds, each deployment has received
  its \<^verbatim>\<open>instances\<close>.
\<close>

fun attach_instances :: "env \<Rightarrow> deployment list \<Rightarrow> error + deployment list" where
  "attach_instances e [] = Inr []"
| "attach_instances e (d # ds) =
     (case now_listInstances e (uid d) of
        Inl err \<Rightarrow> Inl err
      | Inr is \<Rightarrow>
          (case attach_instances e ds of
             Inl err \<Rightarrow> Inl err
           | Inr ds' \<Rightarrow> Inr (d\<lparr>instances := Some is\<rparr> # ds')))"

definition expand_instances :: "env \<Rightarrow> deployment list \<Rightarrow> call list \<times> (error + deployment list)" where
  "expand_instances e deployments =
     (map (\<lambda>d. NowListInstances (uid d)) deployments, attach_instances e deployments)"

section \<open>Grouping (lines 142 and 152 to 155)\<close>

text \<open>
  The \<^verbatim>\<open>Map\<close> \<^verbatim>\<open>apps\<close> keeps its keys in insertion order, and \<^verbatim>\<open>[...apps]\<close> lists its
  entries in that order: an association list with one entry per key.
\<close>

fun map_set :: "(string \<times> 'v) list \<Rightarrow> string \<Rightarrow> 'v \<Rightarrow> (string \<times> 'v) list" where
  "map_set [] k v = [(k, v)]"
| "map_set ((k', v') # m) k v = (if k' = k then (k, v) # m else (k', v') # map_set m k v)"

fun map_get :: "(string \<times> 'v) list \<Rightarrow> string \<Rightarrow> 'v option" where
  "map_get [] k = None"
| "map_get ((k', v') # m) k = (if k' = k then Some v' else map_get m k)"

text \<open>The loop body: \<^verbatim>\<open>apps.get(dep.name) || []\<close>, then \<^verbatim>\<open>apps.set(dep.name, deps.concat(dep))\<close>.\<close>

definition group_step :: "(string \<times> deployment list) list \<Rightarrow> deployment \<Rightarrow> (string \<times> deployment list) list" where
  "group_step apps dep =
     (let deps = (case map_get apps (name dep) of None \<Rightarrow> [] | Some ds \<Rightarrow> ds)
      in map_set apps (name dep) (deps @ [dep]))"

definition group_apps :: "deployment list \<Rightarrow> (string \<times> deployment list) list" where
  "group_apps deployments = foldl group_step [] deployments"

section \<open>Layout and the hint (lines 159 to 191)\<close>

text \<open>Line 161: \<^verbatim>\<open>(i.url && i.url.length) || 0\<close>.\<close>

fun url_length :: "deployment \<Rightarrow> nat" where
  "url_length i = (case url i of None \<Rightarrow> 0 | Some u \<Rightarrow> length u)"

definition urlLength :: "deployment list \<Rightarrow> nat" where
  "urlLength deployments = foldl (\<lambda>acc i. max acc (url_length i)) 0 deployments + 5"

text \<open>Line 168: \<^verbatim>\<open>(currentTeam && currentTeam.slug) || user.username || user.email\<close>.\<close>

definition scope_of :: "sh_config \<Rightarrow> string option" where
  "scope_of c =
     js_or (js_or (case currentTeam c of None \<Rightarrow> None | Some t \<Rightarrow> slug t) (username (user c)))
           (email (user c))"

text \<open>
  Lines 174 to 183. The loop variable \<^verbatim>\<open>app\<close> is an entry of the \<^verbatim>\<open>Map\<close>, the
  two-element array \<^verbatim>\<open>[name, deps]\<close>, and line 177 calls \<^verbatim>\<open>find\<close> on that array: the
  callback receives the name and then the array of deployments, never a deployment.
  \<open>entry_elem\<close> is what the callback can receive. A string and an array have no
  property \<^verbatim>\<open>scale\<close>, so \<^verbatim>\<open>depl.scale\<close> is \<^verbatim>\<open>undefined\<close> for both.
\<close>

datatype entry_elem = EName string | EDeps "deployment list"

fun prop_scale :: "entry_elem \<Rightarrow> scale_info option" where
  "prop_scale (EName s) = None"
| "prop_scale (EDeps ds) = None"

text \<open>The callback of line 177: \<^verbatim>\<open>depl.scale && depl.scale.current > 1\<close>.\<close>

definition scale_above_one :: "entry_elem \<Rightarrow> bool" where
  "scale_above_one depl = (case prop_scale depl of None \<Rightarrow> False | Some sc \<Rightarrow> current sc > 1)"

definition entry_find :: "string \<times> deployment list \<Rightarrow> entry_elem option" where
  "entry_find entry = List.find scale_above_one [EName (fst entry), EDeps (snd entry)]"

text \<open>Truthiness of what \<^verbatim>\<open>find\<close> returns: an element, or \<^verbatim>\<open>undefined\<close>.\<close>

fun truthy_found :: "entry_elem option \<Rightarrow> bool" where
  "truthy_found None = False"
| "truthy_found (Some (EName s)) = (s \<noteq> [])"
| "truthy_found (Some (EDeps ds)) = True"

text \<open>
  The loop assigns \<^verbatim>\<open>shouldShowAllInfo\<close> for each entry and leaves at the first truthy
  value; when it runs to the end the last value assigned is falsy.
\<close>

fun shouldShowAllInfo :: "(string \<times> deployment list) list \<Rightarrow> bool" where
  "shouldShowAllInfo [] = False"
| "shouldShowAllInfo (entry # rest) =
     (if length (snd entry) > 5 \<or> truthy_found (entry_find entry) then True
      else shouldShowAllInfo rest)"

section \<open>Rendering (lines 195 to 262)\<close>

text \<open>Lines 217 to 230: the displayed state and the extra width reserved for its colour codes.\<close>

definition state_cell_of :: "deployment \<Rightarrow> state_cell \<times> nat" where
  "state_cell_of dep =
     (let st = (case state dep of None \<Rightarrow> ''DEPLOYMENT_ERROR'' | Some s \<Rightarrow> s)
      in if regex_test ''ERROR'' st then (Red st, 10)
         else if st = ''FROZEN'' then (Grey st, 10)
         else (Unstyled st, 0))"

text \<open>Lines 250 to 258.\<close>

definition instance_rows :: "nat \<Rightarrow> deployment \<Rightarrow> out_line list" where
  "instance_rows w dep =
     (case instances dep of
        None \<Rightarrow> []
      | Some is \<Rightarrow>
          (if length is > 0
           then map (\<lambda>i. InstanceRow (w + 10) ('' - '' @ i_url i)) is @ [Blank]
           else []))"

text \<open>Lines 216 to 259, for one deployment; \<open>w\<close> is \<^verbatim>\<open>urlLength\<close>.\<close>

definition render_row :: "env \<Rightarrow> bool \<Rightarrow> nat \<Rightarrow> deployment \<Rightarrow> out_line list" where
  "render_row e scheme w dep =
     (let (cell, extraSpaceForState) = state_cell_of dep;
          (uw, sw) = (if supportsColor e then (w + 10, extraSpaceForState + 16) else (w + 1, 16))
      in Row uw sw
           ((if scheme then ''https://'' else '''') @ js_string (url dep))
           (case scale dep of None \<Rightarrow> Cross | Some sc \<Rightarrow> InstCount (current sc))
           cell
           (case created dep of
              None \<Rightarrow> NotAvailable
            | Some c \<Rightarrow> if c = 0 then NotAvailable else Age (time_now e - c))
         # instance_rows w dep)"

text \<open>Line 196: \<^verbatim>\<open>argv.all ? deps : deps.slice(0, 5)\<close>.\<close>

definition listedDeployments :: "bool \<Rightarrow> deployment list \<Rightarrow> deployment list" where
  "listedDeployments a deps = (if a then deps else take 5 deps)"

text \<open>Line 200: the text handed to \<^verbatim>\<open>chalk.gray\<close>.\<close>

definition header_text :: "nat \<Rightarrow> nat \<Rightarrow> string" where
  "header_text k n = ''('' @ show_nat k @ '' of '' @ show_nat n @ '' total)''"

text \<open>The callback of \<^verbatim>\<open>sorted.forEach\<close>, lines 195 to 262, for one entry.\<close>

definition render_group :: "env \<Rightarrow> bool \<Rightarrow> bool \<Rightarrow> nat \<Rightarrow> string \<times> deployment list \<Rightarrow> out_line list" where
  "render_group e a scheme w entry =
     GroupHeader (fst entry)
       (header_text (length (listedDeployments a (snd entry))) (length (snd entry)))
     # ColumnHeader w
     # concat (map (render_row e scheme w) (listedDeployments a (snd entry)))
     @ [Blank]"

text \<open>Lines 152 to 262: everything \<^verbatim>\<open>list\<close> prints once \<^verbatim>\<open>deployments\<close> is final.\<close>

definition present :: "env \<Rightarrow> opts \<Rightarrow> deployment list \<Rightarrow> out_line list" where
  "present e opt deployments =
     (let apps = group_apps deployments;
          sorted = sort_deployments e apps;
          w = urlLength deployments
      in Summary (length deployments) (scope_of (sh opt)) (time_now e - start_time e)
         # (if \<not> argv_all opt \<and> shouldShowAllInfo apps then [Hint] else [])
         @ [Blank]
         @ concat (map (render_group e (argv_all opt) (includeScheme opt) w) sorted))"

section \<open>The command\<close>

text \<open>The message of line 106.\<close>

definition usage_message :: string where
  "usage_message = ''> You must define an app when using `--all`''"

text \<open>
  The function \<^verbatim>\<open>list\<close>, lines 101 to 263. After resolution \<^verbatim>\<open>now.close()\<close> is called
  (line 140). Nothing after line 138 tests \<^verbatim>\<open>deployments\<close> again: when it is still
  \<^verbatim>\<open>undefined\<close> or \<^verbatim>\<open>null\<close>, \<^verbatim>\<open>deployments.map\<close> (line 146, with \<^verbatim>\<open>--all\<close>) or the
  \<^verbatim>\<open>for ... of\<close> of line 152 throws a \<^verbatim>\<open>TypeError\<close>, before any instance is fetched and
  before anything is printed.
\<close>

definition list_cmd :: "env \<Rightarrow> opts \<Rightarrow> result" where
  "list_cmd e opt =
     (if argv_all opt \<and> \<not> truthy (app opt)
      then \<lparr>calls = [NowNew], printed = [Log usage_message], outcome = Exited 1\<rparr>
      else
        (case resolve e (app opt) of
           (cs, out, Inl oc) \<Rightarrow> \<lparr>calls = NowNew # cs, printed = out, outcome = oc\<rparr>
         | (cs, out, Inr None) \<Rightarrow>
             \<lparr>calls = NowNew # cs @ [NowClose], printed = out, outcome = Threw TypeError\<rparr>
         | (cs, out, Inr (Some resolved)) \<Rightarrow>
             (case (if argv_all opt then expand_instances e resolved else ([], Inr resolved)) of
                (ce, Inl err) \<Rightarrow>
                  \<lparr>calls = NowNew # cs @ [NowClose] @ ce, printed = out, outcome = Threw err\<rparr>
              | (ce, Inr deployments) \<Rightarrow>
                  \<lparr>calls = NowNew # cs @ [NowClose] @ ce,
                   printed = out @ present e opt deployments,
                   outcome = Returned\<rparr>)))"

text \<open>
  What \<^verbatim>\<open>main\<close> reads from its context: \<^verbatim>\<open>argv._\<close>, \<^verbatim>\<open>argv.help\<close> and \<^verbatim>\<open>argv.all\<close> as
  \<^verbatim>\<open>mri\<close> returns them (line 62), the credentials (provider and token) and the
  configuration.
\<close>

record ctx =
  positional :: "string list"
  argv_help :: bool
  ctx_all :: bool
  credentials :: "(string \<times> string) list"
  ctx_sh :: sh_config
  ctx_includeScheme :: bool

text \<open>
  Modelled from the spec: \<^verbatim>\<open>util/exit\<close>, required at line 17 and awaited at line 78, is
  not among the sources. Section 6 of the specification says that the help flag prints
  usage and exits with status 0, so \<^verbatim>\<open>await exit(code)\<close> ends the process with that
  status and nothing after it runs.
\<close>

definition exit_helper :: "nat \<Rightarrow> outcome" where
  "exit_helper code = Exited code"

text \<open>
  \<^verbatim>\<open>main\<close>, lines 61 to 90. Lines 70 and 72 take the second positional argument as
  \<^verbatim>\<open>app\<close>. At line 82 the destructuring of \<^verbatim>\<open>undefined\<close> throws when no credential has the
  provider \<^verbatim>\<open>sh\<close>. An error thrown by \<^verbatim>\<open>list\<close> is printed at line 87 and the process exits
  with status 1.
\<close>

definition app_of :: "ctx \<Rightarrow> string option" where
  "app_of c = (case drop 1 (positional c) of [] \<Rightarrow> None | a # rest \<Rightarrow> Some a)"

text \<open>What \<^verbatim>\<open>list\<close> sees: the variables set at lines 72 to 74 and the argument of line 85.\<close>

definition opts_of :: "ctx \<Rightarrow> opts" where
  "opts_of c =
     \<lparr>app = app_of c, argv_all = ctx_all c, sh = ctx_sh c, includeScheme = ctx_includeScheme c\<rparr>"

definition main :: "env \<Rightarrow> ctx \<Rightarrow> result" where
  "main e c =
     (if argv_help c \<or> app_of c = Some ''help''
      then \<lparr>calls = [], printed = [HelpText], outcome = exit_helper 0\<rparr>
      else
        (case List.find (\<lambda>item. fst item = ''sh'') (credentials c) of
           None \<Rightarrow>
             \<lparr>calls = [], printed = [], outcome = Threw TypeError\<rparr>
         | Some item \<Rightarrow>
             (let r = list_cmd e (opts_of c)
              in case outcome r of
                   Threw err \<Rightarrow> r\<lparr>printed := printed r @ [UnknownError err], outcome := Exited 1\<rparr>
                 | Returned \<Rightarrow> r
                 | Exited code \<Rightarrow> r)))"

text \<open>The exported function, lines 92 to 99.\<close>

definition command :: "env \<Rightarrow> ctx \<Rightarrow> result" where
  "command e c =
     (let r = main e c
      in case outcome r of
           Threw err \<Rightarrow> r\<lparr>printed := printed r @ [HandledError err], outcome := Exited 1\<rparr>
         | Returned \<Rightarrow> r
         | Exited code \<Rightarrow> r)"

section \<open>Reading the output\<close>


section \<open>Concrete runs\<close>

text \<open>
  Collaborators and arguments for running the command on explicit inputs. In
  \<open>quiet_env\<close> the account is empty: the listing is the empty array, the lookup finds
  nothing, the alias table is empty, and the comparator keeps the order it is given.
\<close>

definition example_sh :: sh_config where
  "example_sh = \<lparr>currentTeam = None, user = \<lparr>username = Some ''ann'', email = None\<rparr>\<rparr>"

definition example_deployment :: "string \<Rightarrow> string \<Rightarrow> string \<Rightarrow> deployment" where
  "example_deployment u nm ul =
     \<lparr>uid = u, name = nm, url = Some ul, state = Some ''READY'', created = Some 1000,
      scale = None, instances = None\<rparr>"

definition quiet_env :: env where
  "quiet_env =
     \<lparr>now_list = (\<lambda>a. Inr (Some [])), now_findDeployment = (\<lambda>a. Inr None), now_listAliases = Inr [],
      now_listInstances = (\<lambda>u. Inr []), sort_deployments = (\<lambda>gs. gs), supportsColor = False,
      start_time = 0, time_now = 5000\<rparr>"

definition api_opts :: opts where
  "api_opts = \<lparr>app = Some ''api'', argv_all = False, sh = example_sh, includeScheme = False\<rparr>"

definition refused :: error where
  "refused = TransportError ''ECONNREFUSED''"

text \<open>The listing fails; the lookup fails; the alias table fails.\<close>

definition listing_down_env :: env where
  "listing_down_env = quiet_env\<lparr>now_list := (\<lambda>a. Inl refused)\<rparr>"

definition lookup_down_env :: env where
  "lookup_down_env = quiet_env\<lparr>now_findDeployment := (\<lambda>a. Inl refused)\<rparr>"

definition aliases_down_env :: env where
  "aliases_down_env = quiet_env\<lparr>now_listAliases := Inl refused\<rparr>"

text \<open>The command without a target, and with a target but with \<^verbatim>\<open>--all\<close>.\<close>

definition no_target_opts :: opts where
  "no_target_opts = api_opts\<lparr>app := None\<rparr>"

definition all_no_target_opts :: opts where
  "all_no_target_opts = api_opts\<lparr>app := None, argv_all := True\<rparr>"

definition api_all_opts :: opts where
  "api_all_opts = api_opts\<lparr>argv_all := True\<rparr>"

text \<open>Command lines: \<^verbatim>\<open>now ls --all\<close>, \<^verbatim>\<open>now ls api --all\<close> and \<^verbatim>\<open>now ls help\<close>.\<close>

definition ls_all_ctx :: ctx where
  "ls_all_ctx =
     \<lparr>positional = [''ls''], argv_help = False, ctx_all = True,
      credentials = [(''sh'', ''token'')], ctx_sh = example_sh, ctx_includeScheme = False\<rparr>"

definition ls_api_all_ctx :: ctx where
  "ls_api_all_ctx = ls_all_ctx\<lparr>positional := [''ls'', ''api'']\<rparr>"

definition ls_help_ctx :: ctx where
  "ls_help_ctx =
     \<lparr>positional = [''ls'', ''help''], argv_help = False, ctx_all = False,
      credentials = [(''sh'', ''token'')], ctx_sh = example_sh, ctx_includeScheme = False\<rparr>"

text \<open>An account with one deployment.\<close>

definition listing_env :: env where
  "listing_env =
     quiet_env\<lparr>now_list := (\<lambda>a. Inr (Some [example_deployment ''u1'' ''api'' ''api.x.co'']))\<rparr>"

text \<open>
  Alias tables. \<open>live_alias\<close> names an existing deployment; \<open>stale_alias\<close> has the
  target as its \<^verbatim>\<open>uid\<close> and points to a deployment that is gone.
\<close>

definition stale_alias :: alias_entry where
  "stale_alias = \<lparr>a_uid = ''web'', a_alias = ''old.example.com'', deploymentId = ''gone''\<rparr>"

definition live_alias :: alias_entry where
  "live_alias = \<lparr>a_uid = ''a2'', a_alias = ''web'', deploymentId = ''d2''\<rparr>"

definition live_deployment :: deployment where
  "live_deployment = example_deployment ''d2'' ''shop'' ''shop-abc.now.sh''"

definition one_alias_env :: env where
  "one_alias_env =
     quiet_env\<lparr>now_listAliases := Inr [live_alias],
               now_findDeployment := (\<lambda>a. Inr (if a = Some ''d2'' then Some live_deployment else None))\<rparr>"

definition two_alias_env :: env where
  "two_alias_env = one_alias_env\<lparr>now_listAliases := Inr [stale_alias, live_alias]\<rparr>"

text \<open>The alias is found, but the lookup of its deployment fails.\<close>

definition alias_lookup_down_env :: env where
  "alias_lookup_down_env =
     one_alias_env\<lparr>now_findDeployment := (\<lambda>a. if a = Some ''d2'' then Inl refused else Inr None)\<rparr>"

definition web_opts :: opts where
  "web_opts = api_opts\<lparr>app := Some ''web''\<rparr>"

text \<open>
  Two deployments of one application; in \<open>flaky_env\<close> the instances of the first
  cannot be fetched, in \<open>steady_env\<close> both fetches succeed.
\<close>

definition flaky_env :: env where
  "flaky_env =
     quiet_env\<lparr>now_list := (\<lambda>a. Inr (Some [example_deployment ''u1'' ''api'' ''one.now.sh'',
                                            example_deployment ''u2'' ''api'' ''two.now.sh''])),
               now_listInstances := (\<lambda>u. if u = ''u1'' then Inl refused
                                          else Inr [\<lparr>i_url = ''two-1.now.sh''\<rparr>])\<rparr>"

definition steady_env :: env where
  "steady_env = flaky_env\<lparr>now_listInstances := (\<lambda>u. Inr [\<lparr>i_url = ''two-1.now.sh''\<rparr>])\<rparr>"

text \<open>One deployment that runs three instances.\<close>

definition scaled_deployment :: deployment where
  "scaled_deployment = (example_deployment ''u1'' ''api'' ''api.x.co'')\<lparr>scale := Some \<lparr>current = 3\<rparr>\<rparr>"

definition scaled_env :: env where
  "scaled_env = quiet_env\<lparr>now_list := (\<lambda>a. Inr (Some [scaled_deployment]))\<rparr>"




text \<open>
  An empty account whose listing resolves to nothing (\<^verbatim>\<open>undefined\<close>) instead of an empty
  array, and the command line \<^verbatim>\<open>now ls api\<close>.
\<close>

definition absent_listing_env :: env where
  "absent_listing_env = quiet_env\<lparr>now_list := (\<lambda>a. Inr None)\<rparr>"

definition ls_api_ctx :: ctx where
  "ls_api_ctx = ls_all_ctx\<lparr>positional := [''ls'', ''api''], ctx_all := False\<rparr>"

section \<open>Facts about resolution\<close>

lemma js_empty_iff: "js_empty r = (r = None \<or> r = Some [])"
  by (cases r) simp_all

lemma take_match_empty_iff: "js_empty r \<Longrightarrow> js_empty (take_match m r) = (m = None)"
  by (cases m) simp_all

lemma resolve_tier1_error:
  "now_list e tgt = Inl err \<Longrightarrow> resolve e tgt = ([NowList tgt], [HandledError err], Inl (Exited 1))"
  by (simp add: resolve_def)

lemma resolve_tier1_nonempty:
  "now_list e tgt = Inr (Some ds) \<Longrightarrow> ds \<noteq> [] \<Longrightarrow> resolve e tgt = ([NowList tgt], [], Inr (Some ds))"
  by (simp add: resolve_def tier2_def tier3_def)

lemma resolve_tier2_error:
  "now_list e tgt = Inr r \<Longrightarrow> js_empty r \<Longrightarrow> now_findDeployment e tgt = Inl err \<Longrightarrow>
   resolve e tgt = ([NowList tgt, NowFindDeployment tgt], [], Inl (Threw err))"
  by (simp add: resolve_def tier2_def)

lemma resolve_tier3_aliases_error:
  "now_list e tgt = Inr r \<Longrightarrow> js_empty r \<Longrightarrow> now_findDeployment e tgt = Inr None \<Longrightarrow>
   now_listAliases e = Inl err \<Longrightarrow>
   resolve e tgt = ([NowList tgt, NowFindDeployment tgt, NowListAliases], [], Inl (Threw err))"
  by (simp add: resolve_def tier2_def tier3_def)

lemma resolve_tier3_no_alias:
  "now_list e tgt = Inr r \<Longrightarrow> js_empty r \<Longrightarrow> now_findDeployment e tgt = Inr None \<Longrightarrow>
   now_listAliases e = Inr aliases \<Longrightarrow> find_alias tgt aliases = None \<Longrightarrow>
   resolve e tgt = ([NowList tgt, NowFindDeployment tgt, NowListAliases], [], Inr r)"
  by (simp add: resolve_def tier2_def tier3_def)

lemma resolve_tier3_lookup_error:
  "now_list e tgt = Inr r \<Longrightarrow> js_empty r \<Longrightarrow> now_findDeployment e tgt = Inr None \<Longrightarrow>
   now_listAliases e = Inr aliases \<Longrightarrow> find_alias tgt aliases = Some item \<Longrightarrow>
   now_findDeployment e (Some (deploymentId item)) = Inl err \<Longrightarrow>
   resolve e tgt =
     ([NowList tgt, NowFindDeployment tgt, NowListAliases,
       NowFindDeployment (Some (deploymentId item))], [], Inl (Threw err))"
  by (simp add: resolve_def tier2_def tier3_def)

lemma resolve_tier3_lookup:
  "now_list e tgt = Inr r \<Longrightarrow> js_empty r \<Longrightarrow> now_findDeployment e tgt = Inr None \<Longrightarrow>
   now_listAliases e = Inr aliases \<Longrightarrow> find_alias tgt aliases = Some item \<Longrightarrow>
   now_findDeployment e (Some (deploymentId item)) = Inr m \<Longrightarrow>
   resolve e tgt =
     ([NowList tgt, NowFindDeployment tgt, NowListAliases,
       NowFindDeployment (Some (deploymentId item))], [], Inr (take_match m r))"
  by (simp add: resolve_def tier2_def tier3_def)

text \<open>A lookup or the alias table in the log tells what the earlier tiers answered.\<close>

lemma resolve_lookup_only_after_empty:
  "NowFindDeployment x \<in> set (fst (resolve e tgt)) \<Longrightarrow>
   now_list e tgt = Inr None \<or> now_list e tgt = Inr (Some [])"
proof -
  assume a: "NowFindDeployment x \<in> set (fst (resolve e tgt))"
  show ?thesis
  proof (cases "now_list e tgt")
    case (Inl err)
    with a show ?thesis by (simp add: resolve_def)
  next
    case (Inr r)
    show ?thesis
    proof (cases "js_empty r")
      case True
      with Inr show ?thesis by (simp add: js_empty_iff)
    next
      case False
      with Inr a show ?thesis
        by (simp add: resolve_def tier2_def tier3_def)
    qed
  qed
qed

lemma resolve_aliases_only_after_empty:
  "NowListAliases \<in> set (fst (resolve e tgt)) \<Longrightarrow>
   (now_list e tgt = Inr None \<or> now_list e tgt = Inr (Some []))
   \<and> now_findDeployment e tgt = Inr None"
proof -
  assume a: "NowListAliases \<in> set (fst (resolve e tgt))"
  show ?thesis
  proof (cases "now_list e tgt")
    case (Inl err)
    with a show ?thesis by (simp add: resolve_def)
  next
    case (Inr r)
    show ?thesis
    proof (cases "js_empty r")
      case False
      with Inr a show ?thesis
        by (simp add: resolve_def tier2_def tier3_def)
    next
      case True
      show ?thesis
      proof (cases "now_findDeployment e tgt")
        case (Inl err)
        with Inr True a show ?thesis by (simp add: resolve_def tier2_def)
      next
        case found: (Inr m)
        show ?thesis
        proof (cases m)
          case None
          with Inr True found show ?thesis by (simp add: js_empty_iff)
        next
          case (Some d)
          with Inr True found a show ?thesis
            by (simp add: resolve_def tier2_def tier3_def)
        qed
      qed
    qed
  qed
qed

lemma resolve_ok_prints_nothing:
  "resolve e tgt = (cs, out, Inr ds) \<Longrightarrow> out = []"
  by (auto simp: resolve_def split: sum.splits prod.splits)

lemma find_alias_first:
  assumes "\<forall>a \<in> set before. Some (a_uid a) \<noteq> tgt \<and> Some (a_alias a) \<noteq> tgt"
    and "Some (a_uid item) = tgt \<or> Some (a_alias item) = tgt"
  shows "find_alias tgt (before @ item # rest) = Some item"
  using assms by (induction before) (auto simp: find_alias_def)

section \<open>Facts about the command\<close>

lemma calls_list_cmd:
  "set (calls (list_cmd e opt)) \<subseteq>
     {NowNew, NowClose} \<union> set (fst (resolve e (app opt))) \<union> range NowListInstances"
  by (auto simp: list_cmd_def expand_instances_def
           split: prod.splits sum.splits option.splits if_splits)

lemma list_cmd_resolve_abort:
  "\<not> (argv_all opt \<and> \<not> truthy (app opt)) \<Longrightarrow> resolve e (app opt) = (cs, out, Inl oc) \<Longrightarrow>
   list_cmd e opt = \<lparr>calls = NowNew # cs, printed = out, outcome = oc\<rparr>"
  by (auto simp: list_cmd_def)

lemma attach_instances_all_ok:
  "list_all (\<lambda>d. \<not> isl (now_listInstances e (uid d))) ds \<Longrightarrow>
   attach_instances e ds =
     Inr (map (\<lambda>d. d\<lparr>instances := Some (projr (now_listInstances e (uid d)))\<rparr>) ds)"
  by (induction ds) (auto split: sum.splits)

lemma attach_instances_error_source:
  "attach_instances e ds = Inl err \<Longrightarrow> \<exists>d. d \<in> set ds \<and> now_listInstances e (uid d) = Inl err"
  by (induction ds) (auto split: sum.splits)

lemma attach_instances_some_fail:
  "list_ex (\<lambda>d. isl (now_listInstances e (uid d))) ds \<Longrightarrow> isl (attach_instances e ds)"
  by (induction ds) (auto split: sum.splits)

text \<open>After a successful resolution with \<^verbatim>\<open>--all\<close>, the run is decided by the fetches.\<close>

lemma list_cmd_expansion:
  assumes "argv_all opt" and "truthy (app opt)" and "resolve e (app opt) = (cs, out, Inr (Some ds))"
  shows "list_cmd e opt =
      (case attach_instances e ds of
         Inl err \<Rightarrow>
           \<lparr>calls = NowNew # cs @ [NowClose] @ map (\<lambda>d. NowListInstances (uid d)) ds,
            printed = [], outcome = Threw err\<rparr>
       | Inr deployments \<Rightarrow>
           \<lparr>calls = NowNew # cs @ [NowClose] @ map (\<lambda>d. NowListInstances (uid d)) ds,
            printed = present e opt deployments, outcome = Returned\<rparr>)"
proof -
  have "out = []"
    using assms(3) by (rule resolve_ok_prints_nothing)
  then show ?thesis
    using assms by (simp add: list_cmd_def expand_instances_def split: sum.splits)
qed

text \<open>Past the help test and the credentials, the command is \<^verbatim>\<open>list\<close> with its errors reported.\<close>

lemma command_runs_list:
  assumes "\<not> argv_help c" and "app_of c \<noteq> Some ''help''"
    and "List.find (\<lambda>item. fst item = ''sh'') (credentials c) = Some cred"
  shows "command e c =
      (case outcome (list_cmd e (opts_of c)) of
         Threw err \<Rightarrow>
           (list_cmd e (opts_of c))
             \<lparr>printed := printed (list_cmd e (opts_of c)) @ [UnknownError err], outcome := Exited 1\<rparr>
       | Returned \<Rightarrow> list_cmd e (opts_of c)
       | Exited code \<Rightarrow> list_cmd e (opts_of c))"
  using assms by (simp add: command_def main_def Let_def split: outcome.splits)

section \<open>Facts about the report\<close>

lemma show_nat_digit: "n < 10 \<Longrightarrow> show_nat n = [digit n]"
  by (simp add: show_nat.simps)

lemma show_nat_small [simp]:
  "show_nat 0 = ''0''" "show_nat (Suc 0) = ''1''" "show_nat 2 = ''2''" "show_nat 5 = ''5''"
  "show_nat 7 = ''7''"
  by (simp_all add: show_nat_digit digit_def)

text \<open>
  What the scan of lines 174 to 183 computes: \<^verbatim>\<open>find\<close> never finds anything in an
  entry, so only the number of members counts.
\<close>

lemma shouldShowAllInfo_counts_members_only:
  "shouldShowAllInfo apps = list_ex (\<lambda>entry. length (snd entry) > 5) apps"
  by (induction apps) (simp_all add: entry_find_def scale_above_one_def)























section \<open>Running the concrete inputs\<close>

lemmas example_defs = quiet_env_def api_opts_def example_sh_def refused_def
  listing_down_env_def lookup_down_env_def aliases_down_env_def no_target_opts_def
  listing_env_def all_no_target_opts_def api_all_opts_def ls_all_ctx_def ls_api_all_ctx_def
  ls_help_ctx_def stale_alias_def live_alias_def live_deployment_def one_alias_env_def
  two_alias_env_def alias_lookup_down_env_def web_opts_def absent_listing_env_def ls_api_ctx_def
  flaky_env_def steady_env_def scaled_deployment_def scaled_env_def
  example_deployment_def

lemmas list_cmd_defs = list_cmd_def resolve_def tier2_def tier3_def find_alias_def
  present_def group_apps_def urlLength_def scope_of_def js_or_def expand_instances_def

lemma quiet_run:
  "list_cmd quiet_env api_opts =
     \<lparr>calls = [NowNew, NowList (Some ''api''), NowFindDeployment (Some ''api''), NowListAliases,
               NowClose],
      printed = [Summary 0 (Some ''ann'') 5000, Blank], outcome = Returned\<rparr>"
  by (simp add: list_cmd_defs example_defs)

lemma absent_listing_run:
  "list_cmd absent_listing_env api_opts =
     \<lparr>calls = [NowNew, NowList (Some ''api''), NowFindDeployment (Some ''api''), NowListAliases,
               NowClose],
      printed = [], outcome = Threw TypeError\<rparr>"
  by (simp add: list_cmd_defs example_defs)




lemma two_deployments_resolved:
  "resolve flaky_env (Some ''api'') =
     ([NowList (Some ''api'')], [],
      Inr (Some [example_deployment ''u1'' ''api'' ''one.now.sh'',
                 example_deployment ''u2'' ''api'' ''two.now.sh'']))"
  "resolve steady_env (Some ''api'') =
     ([NowList (Some ''api'')], [],
      Inr (Some [example_deployment ''u1'' ''api'' ''one.now.sh'',
                 example_deployment ''u2'' ''api'' ''two.now.sh'']))"
  by (simp_all add: resolve_def tier2_def tier3_def flaky_env_def steady_env_def
                    quiet_env_def)

section \<open>The claims\<close>

text \<open>
  Claim C1. A lookup (tier 2, or the lookup of tier 3) appears among the calls only if
  the listing succeeded with an empty result (the empty array, or nothing at all),
  and the alias table is fetched only if, in addition, the lookup of the target
  succeeded without a match. When the listing fails, the error is handled and the
  process exits with status 1 after that one call; when the lookup, the alias table or
  the lookup of the alias fails, the error leaves \<^verbatim>\<open>list\<close> and the failing call is the
  last one made.
\<close>

theorem fallback_only_after_empty_success:
  "(NowFindDeployment x \<in> set (calls (list_cmd e opt)) \<longrightarrow>
      now_list e (app opt) = Inr None \<or> now_list e (app opt) = Inr (Some []))
   \<and> (NowListAliases \<in> set (calls (list_cmd e opt)) \<longrightarrow>
        (now_list e (app opt) = Inr None \<or> now_list e (app opt) = Inr (Some []))
        \<and> now_findDeployment e (app opt) = Inr None)
   \<and> (\<not> (argv_all opt \<and> \<not> truthy (app opt)) \<longrightarrow>
        (now_list e (app opt) = Inl err \<longrightarrow>
           list_cmd e opt =
             \<lparr>calls = [NowNew, NowList (app opt)], printed = [HandledError err],
              outcome = Exited 1\<rparr>)
        \<and> (now_list e (app opt) = Inr r \<and> js_empty r
             \<and> now_findDeployment e (app opt) = Inl err \<longrightarrow>
           list_cmd e opt =
             \<lparr>calls = [NowNew, NowList (app opt), NowFindDeployment (app opt)], printed = [],
              outcome = Threw err\<rparr>)
        \<and> (now_list e (app opt) = Inr r \<and> js_empty r
             \<and> now_findDeployment e (app opt) = Inr None
             \<and> now_listAliases e = Inl err \<longrightarrow>
           list_cmd e opt =
             \<lparr>calls = [NowNew, NowList (app opt), NowFindDeployment (app opt), NowListAliases],
              printed = [], outcome = Threw err\<rparr>)
        \<and> (now_list e (app opt) = Inr r \<and> js_empty r
             \<and> now_findDeployment e (app opt) = Inr None
             \<and> now_listAliases e = Inr aliases \<and> find_alias (app opt) aliases = Some item
             \<and> now_findDeployment e (Some (deploymentId item)) = Inl err \<longrightarrow>
           list_cmd e opt =
             \<lparr>calls = [NowNew, NowList (app opt), NowFindDeployment (app opt), NowListAliases,
                       NowFindDeployment (Some (deploymentId item))],
              printed = [], outcome = Threw err\<rparr>))"
proof -
  have lookup: "NowFindDeployment x \<in> set (calls (list_cmd e opt)) \<Longrightarrow>
      now_list e (app opt) = Inr None \<or> now_list e (app opt) = Inr (Some [])"
    using calls_list_cmd [of e opt] resolve_lookup_only_after_empty [of x e "app opt"] by auto
  have aliases: "NowListAliases \<in> set (calls (list_cmd e opt)) \<Longrightarrow>
      (now_list e (app opt) = Inr None \<or> now_list e (app opt) = Inr (Some []))
      \<and> now_findDeployment e (app opt) = Inr None"
    using calls_list_cmd [of e opt] resolve_aliases_only_after_empty [of e "app opt"] by auto
  show ?thesis
    using lookup aliases
    by (intro conjI impI)
       (simp_all add: list_cmd_resolve_abort resolve_tier1_error resolve_tier2_error
                   resolve_tier3_aliases_error resolve_tier3_lookup_error)
qed

theorem fallback_only_after_empty_success_witness:
  "NowFindDeployment (Some ''api'') \<in> set (calls (list_cmd quiet_env api_opts))
   \<and> NowListAliases \<in> set (calls (list_cmd quiet_env api_opts))
   \<and> now_list quiet_env (app api_opts) = Inr (Some [])
   \<and> now_findDeployment quiet_env (app api_opts) = Inr None
   \<and> NowListAliases \<in> set (calls (list_cmd absent_listing_env api_opts))
   \<and> now_list absent_listing_env (app api_opts) = Inr None
   \<and> now_list listing_down_env (app api_opts) = Inl refused
   \<and> list_cmd listing_down_env api_opts =
        \<lparr>calls = [NowNew, NowList (Some ''api'')], printed = [HandledError refused],
         outcome = Exited 1\<rparr>
   \<and> now_findDeployment lookup_down_env (app api_opts) = Inl refused
   \<and> list_cmd lookup_down_env api_opts =
        \<lparr>calls = [NowNew, NowList (Some ''api''), NowFindDeployment (Some ''api'')],
         printed = [], outcome = Threw refused\<rparr>
   \<and> now_listAliases aliases_down_env = Inl refused
   \<and> list_cmd aliases_down_env api_opts =
        \<lparr>calls = [NowNew, NowList (Some ''api''), NowFindDeployment (Some ''api''),
                  NowListAliases],
         printed = [], outcome = Threw refused\<rparr>
   \<and> find_alias (app web_opts) [live_alias] = Some live_alias
   \<and> now_findDeployment alias_lookup_down_env (Some (deploymentId live_alias)) = Inl refused
   \<and> list_cmd alias_lookup_down_env web_opts =
        \<lparr>calls = [NowNew, NowList (Some ''web''), NowFindDeployment (Some ''web''),
                  NowListAliases, NowFindDeployment (Some ''d2'')],
         printed = [], outcome = Threw refused\<rparr>"
  using fallback_only_after_empty_success
          [where e = alias_lookup_down_env and opt = web_opts and err = refused
             and aliases = "[live_alias]" and item = live_alias and r = "Some []"]
        fallback_only_after_empty_success
          [where e = quiet_env and opt = api_opts and x = "Some ''api''"]
        fallback_only_after_empty_success
          [where e = listing_down_env and opt = api_opts and err = refused]
        fallback_only_after_empty_success
          [where e = lookup_down_env and opt = api_opts and err = refused and r = "Some []"]
        fallback_only_after_empty_success
          [where e = aliases_down_env and opt = api_opts and err = refused and r = "Some []"]
        quiet_run absent_listing_run
  by (simp add: quiet_env_def api_opts_def listing_down_env_def lookup_down_env_def
                aliases_down_env_def alias_lookup_down_env_def one_alias_env_def web_opts_def
                live_alias_def find_alias_def absent_listing_env_def)

text \<open>
  Claim C2, as the code has it. The claim says that one failed instance fetch leaves
  the rest of the report intact. In the code nothing catches a rejected fetch: with
  \<^verbatim>\<open>now ls api --all\<close>, two deployments and the first fetch failing, the command prints
  only the unknown-error line and exits with status 1.
\<close>

theorem expansion_fetch_failure_counterexample:
  "ctx_all ls_api_all_ctx
   \<and> now_listInstances flaky_env ''u1'' = Inl refused
   \<and> now_listInstances flaky_env ''u2'' = Inr [\<lparr>i_url = ''two-1.now.sh''\<rparr>]
   \<and> command flaky_env ls_api_all_ctx =
       \<lparr>calls = [NowNew, NowList (Some ''api''), NowClose, NowListInstances ''u1'',
                 NowListInstances ''u2''],
        printed = [UnknownError refused], outcome = Exited 1\<rparr>"
  by (simp add: command_def main_def app_of_def opts_of_def list_cmd_defs example_defs)

text \<open>
  Claim C2, amended. With \<^verbatim>\<open>--all\<close> and a target, once resolution has produced the
  array of deployments \<open>ds\<close>, one instance fetch is issued for every deployment of \<open>ds\<close>, whatever
  the other fetches answer. If every fetch succeeds, the report is produced from the
  deployments with their fetched instances. If some fetch fails, no report line is
  printed: the command prints the unknown-error line for the error of a failed fetch
  and exits with status 1.
\<close>

theorem expansion_all_or_nothing:
  assumes "\<not> argv_help c" and "app_of c \<noteq> Some ''help''"
    and "List.find (\<lambda>item. fst item = ''sh'') (credentials c) = Some cred"
    and "ctx_all c" and "truthy (app_of c)"
    and "resolve e (app_of c) = (cs, out, Inr (Some ds))"
  shows "calls (command e c) = NowNew # cs @ [NowClose] @ map (\<lambda>d. NowListInstances (uid d)) ds
       \<and> (list_all (\<lambda>d. \<not> isl (now_listInstances e (uid d))) ds \<longrightarrow>
            outcome (command e c) = Returned
            \<and> printed (command e c) =
                present e (opts_of c)
                  (map (\<lambda>d. d\<lparr>instances := Some (projr (now_listInstances e (uid d)))\<rparr>) ds))
       \<and> (list_ex (\<lambda>d. isl (now_listInstances e (uid d))) ds \<longrightarrow>
            outcome (command e c) = Exited 1
            \<and> (\<exists>d err. d \<in> set ds \<and> now_listInstances e (uid d) = Inl err
                 \<and> printed (command e c) = [UnknownError err]))"
proof -
  note cmd = command_runs_list [OF assms(1-3), of e]
  have run: "list_cmd e (opts_of c) =
      (case attach_instances e ds of
         Inl err \<Rightarrow>
           \<lparr>calls = NowNew # cs @ [NowClose] @ map (\<lambda>d. NowListInstances (uid d)) ds,
            printed = [], outcome = Threw err\<rparr>
       | Inr deployments \<Rightarrow>
           \<lparr>calls = NowNew # cs @ [NowClose] @ map (\<lambda>d. NowListInstances (uid d)) ds,
            printed = present e (opts_of c) deployments, outcome = Returned\<rparr>)"
    using assms(4-6) by (intro list_cmd_expansion) (simp_all add: opts_of_def)
  have c: "calls (command e c) = NowNew # cs @ [NowClose] @ map (\<lambda>d. NowListInstances (uid d)) ds"
    by (simp add: cmd run split: sum.splits)
  have ok: "outcome (command e c) = Returned
            \<and> printed (command e c) =
                present e (opts_of c)
                  (map (\<lambda>d. d\<lparr>instances := Some (projr (now_listInstances e (uid d)))\<rparr>) ds)"
    if "list_all (\<lambda>d. \<not> isl (now_listInstances e (uid d))) ds"
    using attach_instances_all_ok [OF that] by (simp add: cmd run)
  have bad: "outcome (command e c) = Exited 1
            \<and> (\<exists>d err. d \<in> set ds \<and> now_listInstances e (uid d) = Inl err
                 \<and> printed (command e c) = [UnknownError err])"
    if "list_ex (\<lambda>d. isl (now_listInstances e (uid d))) ds"
  proof -
    from attach_instances_some_fail [OF that]
    obtain err where a: "attach_instances e ds = Inl err"
      by (cases "attach_instances e ds") auto
    from attach_instances_error_source [OF a] a show ?thesis
      by (auto simp: cmd run)
  qed
  from c ok bad show ?thesis by blast
qed

theorem expansion_all_or_nothing_witness:
  "\<not> argv_help ls_api_all_ctx \<and> ctx_all ls_api_all_ctx \<and> truthy (app_of ls_api_all_ctx)
   \<and> calls (command flaky_env ls_api_all_ctx) =
       [NowNew, NowList (Some ''api''), NowClose, NowListInstances ''u1'', NowListInstances ''u2'']
   \<and> outcome (command flaky_env ls_api_all_ctx) = Exited 1
   \<and> printed (command flaky_env ls_api_all_ctx) = [UnknownError refused]
   \<and> calls (command steady_env ls_api_all_ctx) =
       [NowNew, NowList (Some ''api''), NowClose, NowListInstances ''u1'', NowListInstances ''u2'']
   \<and> outcome (command steady_env ls_api_all_ctx) = Returned"
proof -
  have app: "app_of ls_api_all_ctx = Some ''api''"
    by (simp add: app_of_def ls_api_all_ctx_def ls_all_ctx_def)
  have cred: "List.find (\<lambda>item. fst item = ''sh'') (credentials ls_api_all_ctx) = Some (''sh'', ''token'')"
    by (simp add: ls_api_all_ctx_def ls_all_ctx_def)
  have flags: "\<not> argv_help ls_api_all_ctx" "ctx_all ls_api_all_ctx"
    by (simp_all add: ls_api_all_ctx_def ls_all_ctx_def)
  have target: "app_of ls_api_all_ctx \<noteq> Some ''help''" "truthy (app_of ls_api_all_ctx)"
    by (simp_all add: app)
  note flaky =
    expansion_all_or_nothing
      [OF flags(1) target(1) cred flags(2) target(2), where e = flaky_env,
       unfolded app, OF two_deployments_resolved(1)]
  note steady =
    expansion_all_or_nothing
      [OF flags(1) target(1) cred flags(2) target(2), where e = steady_env,
       unfolded app, OF two_deployments_resolved(2)]
  have some_fail:
    "list_ex (\<lambda>d. isl (now_listInstances flaky_env (uid d)))
       [example_deployment ''u1'' ''api'' ''one.now.sh'',
        example_deployment ''u2'' ''api'' ''two.now.sh'']"
    by (simp add: flaky_env_def example_deployment_def)
  have none_fail:
    "list_all (\<lambda>d. \<not> isl (now_listInstances steady_env (uid d)))
       [example_deployment ''u1'' ''api'' ''one.now.sh'',
        example_deployment ''u2'' ''api'' ''two.now.sh'']"
    by (simp add: steady_env_def)
  note bad = flaky [THEN conjunct2, THEN conjunct2, THEN mp, OF some_fail]
  note good = steady [THEN conjunct2, THEN conjunct1, THEN mp, OF none_fail]
  from bad obtain d :: deployment and err
    where "now_listInstances flaky_env (uid d) = Inl err"
      and "printed (command flaky_env ls_api_all_ctx) = [UnknownError err]"
    by blast
  then have p: "printed (command flaky_env ls_api_all_ctx) = [UnknownError refused]"
    by (auto simp: flaky_env_def split: if_splits)
  from bad have o: "outcome (command flaky_env ls_api_all_ctx) = Exited 1"
    by (rule conjunct1)
  from good have r: "outcome (command steady_env ls_api_all_ctx) = Returned"
    by (rule conjunct1)
  from flaky [THEN conjunct1] steady [THEN conjunct1] p o r flags target show ?thesis
    by (simp add: example_deployment_def)
qed

text \<open>
  Claim C3, on the code. The claim asks for the hint whenever expansion was not
  requested and some deployment has \<^verbatim>\<open>scale.current\<close> above 1. Line 177 searches the
  entry \<^verbatim>\<open>[name, deps]\<close> instead of \<^verbatim>\<open>deps\<close>, so the scale is never looked at: with
  \<^verbatim>\<open>now ls api\<close> and a single deployment running three instances, the report has no
  hint line.
\<close>

theorem hint_missing_for_scaled_deployment:
  "\<not> argv_all api_opts
   \<and> now_list scaled_env (app api_opts) = Inr (Some [scaled_deployment])
   \<and> map_option current (scale scaled_deployment) = Some 3
   \<and> printed (list_cmd scaled_env api_opts) =
       [Summary 1 (Some ''ann'') 5000, Blank, GroupHeader ''api'' ''(1 of 1 total)'',
        ColumnHeader 13,
        Row 14 16 ''api.x.co'' (InstCount 3) (Unstyled ''READY'') (Age 4000), Blank]"
  by (simp add: list_cmd_defs example_defs group_step_def
                entry_find_def scale_above_one_def render_group_def render_row_def
                listedDeployments_def header_text_def state_cell_of_def instance_rows_def)

text \<open>
  Claim C4, as the code has it. The claim says that without a target the listing is
  the last resolution step even when it is empty. With \<^verbatim>\<open>now ls\<close> on an empty account
  the code goes on to the lookup (with the absent target) and to the alias table.
\<close>

theorem omitted_target_falls_through_counterexample:
  "app no_target_opts = None \<and> now_list quiet_env None = Inr (Some [])
   \<and> calls (list_cmd quiet_env no_target_opts) =
       [NowNew, NowList None, NowFindDeployment None, NowListAliases, NowClose]"
  by (simp add: list_cmd_defs example_defs)

text \<open>
  Claim C4, amended. When the target is omitted and the listing is a non-empty array,
  the listing is the last resolution step: no lookup is made and the alias table is
  not fetched. When the target is omitted, expansion is not requested and the listing
  is empty (the empty array, or nothing), the lookup is attempted with the absent
  target.
\<close>

theorem omitted_target_terminal_when_listing_nonempty:
  assumes "app opt = None"
  shows "(now_list e None = Inr (Some ds) \<and> ds \<noteq> [] \<longrightarrow>
            (\<forall>x. NowFindDeployment x \<notin> set (calls (list_cmd e opt)))
            \<and> NowListAliases \<notin> set (calls (list_cmd e opt)))
       \<and> (\<not> argv_all opt \<and> now_list e None = Inr r \<and> js_empty r \<longrightarrow>
            NowFindDeployment None \<in> set (calls (list_cmd e opt)))"
proof (intro conjI impI allI)
  fix x
  assume ne: "now_list e None = Inr (Some ds) \<and> ds \<noteq> []"
  show "NowFindDeployment x \<notin> set (calls (list_cmd e opt))"
  proof
    assume "NowFindDeployment x \<in> set (calls (list_cmd e opt))"
    then have "NowFindDeployment x \<in> set (fst (resolve e (app opt)))"
      using calls_list_cmd [of e opt] by auto
    then have "now_list e (app opt) = Inr None \<or> now_list e (app opt) = Inr (Some [])"
      by (rule resolve_lookup_only_after_empty)
    with ne assms show False by auto
  qed
next
  assume ne: "now_list e None = Inr (Some ds) \<and> ds \<noteq> []"
  show "NowListAliases \<notin> set (calls (list_cmd e opt))"
  proof
    assume "NowListAliases \<in> set (calls (list_cmd e opt))"
    then have "NowListAliases \<in> set (fst (resolve e (app opt)))"
      using calls_list_cmd [of e opt] by auto
    then have "now_list e (app opt) = Inr None \<or> now_list e (app opt) = Inr (Some [])"
      using resolve_aliases_only_after_empty by blast
    with ne assms show False by auto
  qed
next
  assume h: "\<not> argv_all opt \<and> now_list e None = Inr r \<and> js_empty r"
  have "NowFindDeployment None \<in> set (fst (resolve e None))"
    using h
    by (auto simp: resolve_def tier2_def tier3_def split: sum.splits option.splits prod.splits)
  then show "NowFindDeployment None \<in> set (calls (list_cmd e opt))"
    using assms h
    by (auto simp: list_cmd_def split: sum.splits option.splits prod.splits)
qed

theorem omitted_target_terminal_when_listing_nonempty_witness:
  "app no_target_opts = None
   \<and> now_list listing_env None = Inr (Some [example_deployment ''u1'' ''api'' ''api.x.co''])
   \<and> NowFindDeployment None \<notin> set (calls (list_cmd listing_env no_target_opts))
   \<and> NowListAliases \<notin> set (calls (list_cmd listing_env no_target_opts))
   \<and> now_list quiet_env None = Inr (Some [])
   \<and> NowFindDeployment None \<in> set (calls (list_cmd quiet_env no_target_opts))"
  using omitted_target_terminal_when_listing_nonempty
          [where opt = no_target_opts and e = listing_env
             and ds = "[example_deployment ''u1'' ''api'' ''api.x.co'']"]
        omitted_target_terminal_when_listing_nonempty
          [where opt = no_target_opts and e = quiet_env and r = "Some []"]
  by (simp add: no_target_opts_def listing_env_def quiet_env_def api_opts_def)

text \<open>
  Claim C5. With \<^verbatim>\<open>--all\<close> and no target (absent or empty), \<^verbatim>\<open>list\<close> prints the usage
  message and exits with status 1 having only constructed the client: no request was
  sent. For the whole command, when the help flag is not set: it exits with status 1,
  no request was sent, and nothing but the usage message or a handled error is
  printed.
\<close>

theorem expansion_without_target_rejected:
  "(argv_all opt \<and> \<not> truthy (app opt) \<longrightarrow>
      list_cmd e opt = \<lparr>calls = [NowNew], printed = [Log usage_message], outcome = Exited 1\<rparr>
      \<and> filter is_network_call (calls (list_cmd e opt)) = [])
   \<and> (ctx_all c \<and> \<not> argv_help c \<and> \<not> truthy (app_of c) \<longrightarrow>
      outcome (command e c) = Exited 1
      \<and> filter is_network_call (calls (command e c)) = []
      \<and> list_all (\<lambda>l. l = Log usage_message \<or> (\<exists>err. l = HandledError err))
          (printed (command e c)))"
proof (intro conjI impI)
  assume "argv_all opt \<and> \<not> truthy (app opt)"
  then show l: "list_cmd e opt = \<lparr>calls = [NowNew], printed = [Log usage_message], outcome = Exited 1\<rparr>"
    by (simp add: list_cmd_def)
  then show "filter is_network_call (calls (list_cmd e opt)) = []"
    by simp
next
  assume h: "ctx_all c \<and> \<not> argv_help c \<and> \<not> truthy (app_of c)"
  then have nh: "app_of c \<noteq> Some ''help''" by auto
  have l: "list_cmd e (opts_of c) =
      \<lparr>calls = [NowNew], printed = [Log usage_message], outcome = Exited 1\<rparr>"
    using h by (simp add: list_cmd_def opts_of_def)
  show "outcome (command e c) = Exited 1"
    using h nh l by (simp add: command_def main_def split: option.splits)
  show "filter is_network_call (calls (command e c)) = []"
    using h nh l by (simp add: command_def main_def split: option.splits)
  show "list_all (\<lambda>l. l = Log usage_message \<or> (\<exists>err. l = HandledError err)) (printed (command e c))"
    using h nh l by (simp add: command_def main_def split: option.splits)
qed

theorem expansion_without_target_rejected_witness:
  "argv_all all_no_target_opts \<and> \<not> truthy (app all_no_target_opts)
   \<and> list_cmd quiet_env all_no_target_opts =
       \<lparr>calls = [NowNew], printed = [Log usage_message], outcome = Exited 1\<rparr>
   \<and> ctx_all ls_all_ctx \<and> \<not> argv_help ls_all_ctx \<and> \<not> truthy (app_of ls_all_ctx)
   \<and> outcome (command quiet_env ls_all_ctx) = Exited 1
   \<and> filter is_network_call (calls (command quiet_env ls_all_ctx)) = []"
  using expansion_without_target_rejected
          [where opt = all_no_target_opts and e = quiet_env and c = ls_all_ctx]
  by (simp add: all_no_target_opts_def api_opts_def ls_all_ctx_def app_of_def)

text \<open>
  Claim C6, on the code. The claim asks for a report with zero deployments whenever
  all three tiers yield empty. Lines 119 and 127 count a listing that resolved to
  nothing (\<^verbatim>\<open>undefined\<close> or \<^verbatim>\<open>null\<close>) as empty, and tiers 2 and 3 run; but line 152
  iterates over \<^verbatim>\<open>deployments\<close> without that test. With \<^verbatim>\<open>now ls api\<close>, such a listing,
  no deployment and no alias for the target, \<^verbatim>\<open>list\<close> throws a \<^verbatim>\<open>TypeError\<close> having
  printed nothing, and the command prints the unknown-error line and exits with
  status 1.
\<close>

theorem absent_listing_is_reported_as_error:
  "now_list absent_listing_env (app_of ls_api_ctx) = Inr None
   \<and> js_empty None
   \<and> now_findDeployment absent_listing_env (app_of ls_api_ctx) = Inr None
   \<and> now_listAliases absent_listing_env = Inr []
   \<and> list_cmd absent_listing_env (opts_of ls_api_ctx) =
       \<lparr>calls = [NowNew, NowList (Some ''api''), NowFindDeployment (Some ''api''),
                 NowListAliases, NowClose],
        printed = [], outcome = Threw TypeError\<rparr>
   \<and> command absent_listing_env ls_api_ctx =
       \<lparr>calls = [NowNew, NowList (Some ''api''), NowFindDeployment (Some ''api''),
                 NowListAliases, NowClose],
        printed = [UnknownError TypeError], outcome = Exited 1\<rparr>"
  by (simp add: command_def main_def app_of_def opts_of_def list_cmd_defs example_defs)

text \<open>
  When the listing is the empty array, the same run ends as the claim says: \<^verbatim>\<open>list\<close>
  returns normally and has printed the summary line with count 0 and the blank line,
  with no group header and no row. The comparator is taken to return no group when
  it is given none.
\<close>

lemma empty_array_listing_report:
  assumes "\<not> (argv_all opt \<and> \<not> truthy (app opt))"
    and "now_list e (app opt) = Inr (Some [])"
    and "now_findDeployment e (app opt) = Inr None"
    and "now_listAliases e = Inr aliases"
    and "case find_alias (app opt) aliases of
           None \<Rightarrow> True
         | Some item \<Rightarrow> now_findDeployment e (Some (deploymentId item)) = Inr None"
    and "sort_deployments e [] = []"
  shows "outcome (list_cmd e opt) = Returned
       \<and> printed (list_cmd e opt) =
           [Summary 0 (scope_of (sh opt)) (time_now e - start_time e), Blank]
       \<and> filter is_group_header (printed (list_cmd e opt)) = []
       \<and> filter is_row (printed (list_cmd e opt)) = []"
proof -
  have e: "js_empty (Some [])" by simp
  have r: "snd (resolve e (app opt)) = ([], Inr (Some []))"
    using assms(3-5)
    by (cases "find_alias (app opt) aliases")
       (simp_all add: resolve_tier3_no_alias [OF assms(2) e] resolve_tier3_lookup [OF assms(2) e])
  have p: "present e opt [] = [Summary 0 (scope_of (sh opt)) (time_now e - start_time e), Blank]"
    using assms(6) by (simp add: present_def group_apps_def)
  obtain cs where rr: "resolve e (app opt) = (cs, [], Inr (Some []))"
    using r by (cases "resolve e (app opt)") auto
  have "list_cmd e opt =
      \<lparr>calls = NowNew # cs @ [NowClose], printed = present e opt [], outcome = Returned\<rparr>"
    using assms(1) rr by (auto simp: list_cmd_def expand_instances_def)
  then show ?thesis using p by simp
qed

text \<open>
  Claim C7, as the code has it. The claim speaks of any entry of the alias table that
  matches the target. The code follows only the first matching entry: here the table
  holds an entry whose \<^verbatim>\<open>alias\<close> is the target and whose deployment exists, behind an
  entry whose \<^verbatim>\<open>uid\<close> is the target and whose deployment is gone, and resolution
  returns nothing.
\<close>

theorem alias_indirection_counterexample:
  "now_list two_alias_env (Some ''web'') = Inr (Some [])
   \<and> now_findDeployment two_alias_env (Some ''web'') = Inr None
   \<and> now_listAliases two_alias_env = Inr [stale_alias, live_alias]
   \<and> a_alias live_alias = ''web''
   \<and> now_findDeployment two_alias_env (Some (deploymentId live_alias)) = Inr (Some live_deployment)
   \<and> snd (snd (resolve two_alias_env (Some ''web''))) = Inr (Some [])"
  by (simp add: list_cmd_defs example_defs)

text \<open>
  Claim C7, amended. For every target such that the listing is empty (the empty array,
  or nothing) and the lookup of the target finds nothing, if the first entry of the alias table whose \<^verbatim>\<open>uid\<close> or
  \<^verbatim>\<open>alias\<close> equals the target has a \<^verbatim>\<open>deploymentId\<close> whose lookup finds a deployment, then
  resolution returns the one-element sequence of exactly that deployment.
\<close>

theorem alias_indirection_first_match:
  assumes "now_list e tgt = Inr r" and "js_empty r"
    and "now_findDeployment e tgt = Inr None"
    and "now_listAliases e = Inr (before @ item # rest)"
    and "\<forall>a \<in> set before. Some (a_uid a) \<noteq> tgt \<and> Some (a_alias a) \<noteq> tgt"
    and "Some (a_uid item) = tgt \<or> Some (a_alias item) = tgt"
    and "now_findDeployment e (Some (deploymentId item)) = Inr (Some d)"
  shows "snd (snd (resolve e tgt)) = Inr (Some [d])"
  using resolve_tier3_lookup [OF assms(1-4) find_alias_first [OF assms(5,6)] assms(7)]
  by simp

theorem alias_indirection_first_match_witness:
  "now_list one_alias_env (Some ''web'') = Inr (Some [])
   \<and> js_empty (Some [])
   \<and> now_findDeployment one_alias_env (Some ''web'') = Inr None
   \<and> now_listAliases one_alias_env = Inr ([] @ live_alias # [])
   \<and> Some (a_alias live_alias) = Some ''web''
   \<and> now_findDeployment one_alias_env (Some (deploymentId live_alias)) = Inr (Some live_deployment)
   \<and> snd (snd (resolve one_alias_env (Some ''web''))) = Inr (Some [live_deployment])"
  using alias_indirection_first_match
          [where e = one_alias_env and tgt = "Some ''web''" and before = "[]" and item = live_alias
             and rest = "[]" and d = live_deployment and r = "Some []"]
  by (simp add: one_alias_env_def quiet_env_def live_alias_def)





text \<open>
  Claim C10. When the positional argument after the subcommand is \<^verbatim>\<open>help\<close>, the command
  prints the usage text and exits with status 0, and it has used the client in no way:
  nothing is resolved and no request is sent. So no run with that argument lists an
  application named \<^verbatim>\<open>help\<close>.
\<close>

theorem help_argument_prints_usage:
  assumes "app_of c = Some ''help''"
  shows "command e c = \<lparr>calls = [], printed = [HelpText], outcome = Exited 0\<rparr>"
  using assms by (simp add: command_def main_def exit_helper_def)

theorem help_argument_prints_usage_witness:
  "app_of ls_help_ctx = Some ''help''
   \<and> command quiet_env ls_help_ctx = \<lparr>calls = [], printed = [HelpText], outcome = Exited 0\<rparr>"
  using help_argument_prints_usage [where c = ls_help_ctx and e = quiet_env]
  by (simp add: ls_help_ctx_def app_of_def)

end
